theory Spec2Isabelle
  imports Main "HOL-Library.Sublist"
begin

section \<open>Data model of the LDAP upstream watcher\<close>

text \<open>
  A shallow embedding of \<^verbatim>\<open>internal/controller/supervisorconfig/upstreamwatcher/ldap_upstream_watcher.go\<close>.
  Go structs are records, Go string-typed enumerations are datatypes, a nil pointer is
  \<open>None\<close>, and every call into a collaborator (listers, the LDAP dialer, the API client,
  the IDP cache, the standard library decoders) is either a field of a read-only
  environment record or an explicit change of the \<open>world\<close> record threaded through the
  controller's functions.
\<close>

datatype ConditionStatus = ConditionTrue | ConditionFalse | ConditionUnknown

datatype LDAPIdentityProviderPhase = LDAPPhasePending | LDAPPhaseReady | LDAPPhaseError

text \<open>
  Modelled from the spec: the constants \<^verbatim>\<open>reasonSuccess\<close>, \<^verbatim>\<open>reasonNotFound\<close>,
  \<^verbatim>\<open>reasonWrongType\<close>, \<^verbatim>\<open>reasonMissingKeys\<close> and \<^verbatim>\<open>reasonInvalidTLSConfig\<close> are used by
  the watcher but declared in a file of the package that is not part of the sources at hand;
  their string values are unknown. The spec treats them as separate stable reason codes
  ("Missing secret: False with NotFound. Wrong secret type: False with WrongType", "a stable
  reason code" for TLS failures). The \<open>Reason\<close> field is therefore an enumeration that keeps
  the source's identifiers, one constructor per identifier; \<open>reasonOther\<close> stands for any
  other text found in a stored condition. The two reasons that the file declares itself
  (\<^verbatim>\<open>reasonLDAPConnectionError\<close>, \<^verbatim>\<open>reasonAuthenticationDryRunError\<close>) are constructors too.
\<close>

datatype reason =
    reasonSuccess
  | reasonNotFound
  | reasonWrongType
  | reasonMissingKeys
  | reasonInvalidTLSConfig
  | reasonLDAPConnectionError
  | reasonAuthenticationDryRunError
  | reasonOther string

text \<open>\<^verbatim>\<open>v1alpha1.Condition\<close>; times are abstract clock readings, generations are \<^verbatim>\<open>int64\<close>
  values that the code only copies and compares.\<close>

record Condition =
  Type :: string
  Status :: ConditionStatus
  ObservedGeneration :: int
  LastTransitionTime :: nat
  Reason :: reason
  Message :: string

record LDAPIdentityProviderTLSSpec =
  CertificateAuthorityData :: string

record LDAPIdentityProviderBind =
  SecretName :: string

record LDAPIdentityProviderUserSearchAttributes =
  Username :: string
  UID :: string

record LDAPIdentityProviderUserSearch =
  spec_Base :: string
  spec_Filter :: string
  Attributes :: LDAPIdentityProviderUserSearchAttributes

record LDAPIdentityProviderSpec =
  spec_Host :: string
  spec_TLS :: "LDAPIdentityProviderTLSSpec option"
  spec_Bind :: LDAPIdentityProviderBind
  spec_UserSearch :: LDAPIdentityProviderUserSearch
  DryRunAuthenticationUsername :: string

record LDAPIdentityProviderStatus =
  Phase :: LDAPIdentityProviderPhase
  Conditions :: "Condition list"

record LDAPIdentityProvider =
  obj_Name :: string
  obj_Namespace :: string
  Generation :: int
  Spec :: LDAPIdentityProviderSpec
  idp_Status :: LDAPIdentityProviderStatus

text \<open>\<^verbatim>\<open>corev1.Secret\<close>, reduced to the fields the watcher reads.\<close>

record Secret =
  secret_Type :: string
  Data :: "string \<rightharpoonup> string"
  ResourceVersion :: string

text \<open>\<^verbatim>\<open>string(secret.Data[key])\<close>: a missing key reads as the empty string.\<close>

definition data_string :: "Secret \<Rightarrow> string \<Rightarrow> string" where
  "data_string secret key = (case Data secret key of None \<Rightarrow> [] | Some v \<Rightarrow> v)"

definition SecretTypeBasicAuth :: string where
  "SecretTypeBasicAuth = ''kubernetes.io/basic-auth''"

definition BasicAuthUsernameKey :: string where
  "BasicAuthUsernameKey = ''username''"

definition BasicAuthPasswordKey :: string where
  "BasicAuthPasswordKey = ''password''"

text \<open>\<^verbatim>\<open>upstreamldap.ProviderConfig\<close>. Its \<^verbatim>\<open>Dialer\<close> field always holds the
  controller's one dialer, which lives in the environment below.\<close>

record UserSearchConfig =
  Base :: string
  Filter :: string
  UsernameAttribute :: string
  UIDAttribute :: string

record ProviderConfig =
  Name :: string
  Host :: string
  CABundle :: string
  BindUsername :: string
  BindPassword :: string
  UserSearch :: UserSearchConfig

text \<open>\<^verbatim>\<open>upstreamldap.New\<close> wraps a copy of the configuration; the validated provider
  record is that configuration.\<close>

type_synonym Provider = ProviderConfig

definition New :: "ProviderConfig \<Rightarrow> Provider" where
  "New config = config"

text \<open>What \<^verbatim>\<open>DryRunAuthenticateUser\<close> returns: the user of the response (name and UID),
  the \<^verbatim>\<open>authenticated\<close> flag and the error (\<open>None\<close> is nil).\<close>

record DryRunResult =
  resp_UserName :: string
  resp_UserUID :: string
  authenticated :: bool
  dry_err :: "string option"

text \<open>The collaborators of one \<^verbatim>\<open>Sync\<close> call; within one sync each of them answers as
  a function of its arguments. An \<open>Inl\<close> carries the text of the returned error.
  \<open>quote\<close> is the \<^verbatim>\<open>%q\<close> verb of \<^verbatim>\<open>fmt\<close>; \<open>errNoCertificates\<close> is a text constant
  declared outside the file; \<open>now\<close> is the clock.\<close>

record controller_env =
  lister_List :: "string + LDAPIdentityProvider list"
  secrets_Get :: "string \<Rightarrow> string \<Rightarrow> string + Secret"
  TestConnection :: "Provider \<Rightarrow> string option"
  DryRunAuthenticateUser :: "Provider \<Rightarrow> string \<Rightarrow> DryRunResult"
  base64_DecodeString :: "string \<Rightarrow> string + string"
  AppendCertsFromPEM :: "string \<Rightarrow> bool"
  quote :: "string \<Rightarrow> string"
  errNoCertificates :: string
  now :: nat

datatype dial = DialTestConnection Provider | DialDryRun Provider string

text \<open>Everything a sync can change: the published snapshot of the IDP cache (with the
  number of \<^verbatim>\<open>SetLDAPIdentityProviders\<close> calls), the \<^verbatim>\<open>UpdateStatus\<close> requests sent to
  the object store, and the network validations attempted.\<close>

record world =
  idp_cache :: "Provider list"
  set_calls :: nat
  status_updates :: "LDAPIdentityProvider list"
  dials :: "dial list"

datatype sync_error = ErrSyntheticRequeue | ErrFailedToList string

definition typeBindSecretValid :: string where
  "typeBindSecretValid = ''BindSecretValid''"

definition typeTLSConfigurationValid :: string where
  "typeTLSConfigurationValid = ''TLSConfigurationValid''"

definition typeLDAPConnectionValid :: string where
  "typeLDAPConnectionValid = ''LDAPConnectionValid''"

definition noTLSConfigurationMessage :: string where
  "noTLSConfigurationMessage = ''no TLS configuration provided''"

definition loadedTLSConfigurationMessage :: string where
  "loadedTLSConfigurationMessage = ''loaded TLS configuration''"

section \<open>The secret-version parser\<close>

text \<open>
  \<^verbatim>\<open>secretVersionParser\<close> is the compiled pattern
  \<^verbatim>\<open> \[validated with Secret ".+" at version "(.+)"]\<close>: a literal, a greedy \<^verbatim>\<open>.+\<close>, a
  literal, a capturing greedy \<^verbatim>\<open>.+\<close> and a literal. Go's \<^verbatim>\<open>regexp\<close> returns the match
  that starts leftmost and, among those, the one a backtracking search finds first; \<^verbatim>\<open>.\<close>
  matches every character but the line feed. The matcher below is that backtracking
  search for this pattern.
\<close>

definition parser_lit1 :: string where
  \<open>parser_lit1 = '' [validated with Secret "''\<close>

definition parser_lit2 :: string where
  \<open>parser_lit2 = ''" at version "''\<close>

definition parser_lit3 :: string where
  \<open>parser_lit3 = ''"]''\<close>

definition dot :: "char \<Rightarrow> bool" where
  "dot c \<longleftrightarrow> c \<noteq> CHR 0x0A"

text \<open>A literal of the pattern: the rest of the input behind it, if the input starts
  with it.\<close>

definition lit :: "string \<Rightarrow> string \<Rightarrow> string option" where
  "lit p s = (if take (length p) s = p then Some (drop (length p) s) else None)"

text \<open>Greedy \<^verbatim>\<open>.+\<close> followed by the continuation \<open>k\<close>: the longest run is tried first,
  then each shorter one down to a single character.\<close>

fun dot_plus :: "nat \<Rightarrow> string \<Rightarrow> (string \<Rightarrow> string \<Rightarrow> 'a option) \<Rightarrow> 'a option" where
  "dot_plus 0 s k = None"
| "dot_plus (Suc n) s k =
     (case k (take (Suc n) s) (drop (Suc n) s) of
        Some r \<Rightarrow> Some r
      | None \<Rightarrow> dot_plus n s k)"

definition dot_plus_greedy :: "string \<Rightarrow> (string \<Rightarrow> string \<Rightarrow> 'a option) \<Rightarrow> 'a option" where
  "dot_plus_greedy s k = dot_plus (length (takeWhile dot s)) s k"

text \<open>The pattern behind the first \<^verbatim>\<open>.+\<close> (which has matched \<open>name\<close>): the second
  literal, the capturing group and the closing literal. A success carries the matched text
  and group 1.\<close>

definition after_name :: "string \<Rightarrow> string \<Rightarrow> (string \<times> string) option" where
  "after_name name s2 =
     (case lit parser_lit2 s2 of
        None \<Rightarrow> None
      | Some s3 \<Rightarrow>
          dot_plus_greedy s3 (\<lambda>version s4.
            case lit parser_lit3 s4 of
              None \<Rightarrow> None
            | Some s5 \<Rightarrow>
                Some (parser_lit1 @ name @ parser_lit2 @ version @ parser_lit3, version)))"

text \<open>The whole pattern anchored at the start of \<open>s\<close>.\<close>

definition match_here :: "string \<Rightarrow> (string \<times> string) option" where
  "match_here s =
     (case lit parser_lit1 s of
        None \<Rightarrow> None
      | Some s1 \<Rightarrow> dot_plus_greedy s1 after_name)"

text \<open>The leftmost start position wins.\<close>

fun find_leftmost :: "string \<Rightarrow> (string \<times> string) option" where
  "find_leftmost [] = match_here []"
| "find_leftmost (c # cs) =
     (case match_here (c # cs) of
        Some r \<Rightarrow> Some r
      | None \<Rightarrow> find_leftmost cs)"

text \<open>\<^verbatim>\<open>secretVersionParser.FindStringSubmatch\<close>: nil (the empty list) when nothing
  matches, otherwise the match followed by group 1.\<close>

definition FindStringSubmatch :: "string \<Rightarrow> string list" where
  "FindStringSubmatch s =
     (case find_leftmost s of
        None \<Rightarrow> []
      | Some (whole, version) \<Rightarrow> [whole, version])"

section \<open>The controller\<close>

definition validTLSCondition :: "string \<Rightarrow> Condition" where
  "validTLSCondition message =
     \<lparr>Type = typeTLSConfigurationValid, Status = ConditionTrue, ObservedGeneration = 0,
      LastTransitionTime = 0, Reason = reasonSuccess, Message = message\<rparr>"

definition invalidTLSCondition :: "string \<Rightarrow> Condition" where
  "invalidTLSCondition message =
     \<lparr>Type = typeTLSConfigurationValid, Status = ConditionFalse, ObservedGeneration = 0,
      LastTransitionTime = 0, Reason = reasonInvalidTLSConfig, Message = message\<rparr>"

text \<open>\<^verbatim>\<open>validateSecret\<close> returns the condition and the observed resource version; the
  configuration it fills in through its pointer argument is returned as a third
  component.\<close>

definition validateSecret ::
  "controller_env \<Rightarrow> LDAPIdentityProvider \<Rightarrow> ProviderConfig \<Rightarrow> Condition \<times> string \<times> ProviderConfig" where
  "validateSecret env upstream config =
     (let secretName = SecretName (spec_Bind (Spec upstream)) in
      case secrets_Get env (obj_Namespace upstream) secretName of
        Inl err \<Rightarrow>
          (\<lparr>Type = typeBindSecretValid, Status = ConditionFalse, ObservedGeneration = 0,
            LastTransitionTime = 0, Reason = reasonNotFound, Message = err\<rparr>, [], config)
      | Inr secret \<Rightarrow>
          if secret_Type secret \<noteq> SecretTypeBasicAuth then
            (\<lparr>Type = typeBindSecretValid, Status = ConditionFalse, ObservedGeneration = 0,
              LastTransitionTime = 0, Reason = reasonWrongType,
              Message = ''referenced Secret '' @ quote env secretName @ '' has wrong type ''
                @ quote env (secret_Type secret) @ '' (should be ''
                @ quote env SecretTypeBasicAuth @ '')''\<rparr>,
             ResourceVersion secret, config)
          else
            let config' = config
                  \<lparr>BindUsername := data_string secret BasicAuthUsernameKey,
                   BindPassword := data_string secret BasicAuthPasswordKey\<rparr>
            in if length (BindUsername config') = 0 \<or> length (BindPassword config') = 0 then
                 (\<lparr>Type = typeBindSecretValid, Status = ConditionFalse, ObservedGeneration = 0,
                   LastTransitionTime = 0, Reason = reasonMissingKeys,
                   Message = ''referenced Secret '' @ quote env secretName
                     @ '' is missing required keys ['' @ quote env BasicAuthUsernameKey @ '' ''
                     @ quote env BasicAuthPasswordKey @ '']''\<rparr>,
                  ResourceVersion secret, config')
               else
                 (\<lparr>Type = typeBindSecretValid, Status = ConditionTrue, ObservedGeneration = 0,
                   LastTransitionTime = 0, Reason = reasonSuccess, Message = ''loaded bind secret''\<rparr>,
                  ResourceVersion secret, config'))"

definition validateTLSConfig ::
  "controller_env \<Rightarrow> LDAPIdentityProvider \<Rightarrow> ProviderConfig \<Rightarrow> Condition \<times> ProviderConfig" where
  "validateTLSConfig env upstream config =
     (case spec_TLS (Spec upstream) of
        None \<Rightarrow> (validTLSCondition noTLSConfigurationMessage, config)
      | Some tlsSpec \<Rightarrow>
          if length (CertificateAuthorityData tlsSpec) = 0 then
            (validTLSCondition loadedTLSConfigurationMessage, config)
          else
            case base64_DecodeString env (CertificateAuthorityData tlsSpec) of
              Inl err \<Rightarrow>
                (invalidTLSCondition (''certificateAuthorityData is invalid: '' @ err), config)
            | Inr bundle \<Rightarrow>
                if \<not> AppendCertsFromPEM env bundle then
                  (invalidTLSCondition
                     (''certificateAuthorityData is invalid: '' @ errNoCertificates env), config)
                else
                  (validTLSCondition loadedTLSConfigurationMessage, (config\<lparr>CABundle := bundle\<rparr>)))"

definition testConnection ::
  "controller_env \<Rightarrow> LDAPIdentityProvider \<Rightarrow> ProviderConfig \<Rightarrow> Provider \<Rightarrow> string \<Rightarrow> world
     \<Rightarrow> Condition \<times> world" where
  \<open>testConnection env upstream config ldapProvider currentSecretVersion w =
     (let w' = w\<lparr>dials := dials w @ [DialTestConnection ldapProvider]\<rparr> in
      case TestConnection env ldapProvider of
        Some err \<Rightarrow>
          (\<lparr>Type = typeLDAPConnectionValid, Status = ConditionFalse, ObservedGeneration = 0,
            LastTransitionTime = 0, Reason = reasonLDAPConnectionError,
            Message = ''could not successfully connect to "'' @ Host config
              @ ''" and bind as user "'' @ BindUsername config @ ''": '' @ err\<rparr>, w')
      | None \<Rightarrow>
          (\<lparr>Type = typeLDAPConnectionValid, Status = ConditionTrue, ObservedGeneration = 0,
            LastTransitionTime = 0, Reason = reasonSuccess,
            Message = ''successfully able to connect to "'' @ Host config
              @ ''" and bind as user "'' @ BindUsername config
              @ ''" [validated with Secret "'' @ SecretName (spec_Bind (Spec upstream))
              @ ''" at version "'' @ currentSecretVersion @ ''"]''\<rparr>, w'))\<close>

definition dryRunAuthentication ::
  "controller_env \<Rightarrow> LDAPIdentityProvider \<Rightarrow> Provider \<Rightarrow> string \<Rightarrow> world \<Rightarrow> Condition \<times> world" where
  \<open>dryRunAuthentication env upstream ldapProvider currentSecretVersion w =
     (let username = DryRunAuthenticationUsername (Spec upstream);
          w' = w\<lparr>dials := dials w @ [DialDryRun ldapProvider username]\<rparr>;
          res = DryRunAuthenticateUser env ldapProvider username in
      case dry_err res of
        Some err \<Rightarrow>
          (\<lparr>Type = typeLDAPConnectionValid, Status = ConditionFalse, ObservedGeneration = 0,
            LastTransitionTime = 0, Reason = reasonAuthenticationDryRunError,
            Message = ''failed authentication dry run for end user "'' @ username
              @ ''": '' @ err\<rparr>, w')
      | None \<Rightarrow>
          if \<not> authenticated res then
            (\<lparr>Type = typeLDAPConnectionValid, Status = ConditionFalse, ObservedGeneration = 0,
              LastTransitionTime = 0, Reason = reasonAuthenticationDryRunError,
              Message = ''failed authentication dry run for end user "'' @ username
                @ ''": user not found''\<rparr>, w')
          else
            (\<lparr>Type = typeLDAPConnectionValid, Status = ConditionTrue, ObservedGeneration = 0,
              LastTransitionTime = 0, Reason = reasonSuccess,
              Message = ''successful authentication dry run for end user "'' @ username
                @ ''": selected username "'' @ resp_UserName res
                @ ''" and UID "'' @ resp_UserUID res
                @ ''" [validated with Secret "'' @ SecretName (spec_Bind (Spec upstream))
                @ ''" at version "'' @ currentSecretVersion @ ''"]''\<rparr>, w'))\<close>

text \<open>The loop of \<^verbatim>\<open>hasPreviousSuccessfulConditionForCurrentSpecGenerationAndSecretVersion\<close>
  over the stored conditions; a recursive call is the loop's next round.\<close>

fun previousSuccess_loop :: "Condition list \<Rightarrow> int \<Rightarrow> string \<Rightarrow> bool" where
  "previousSuccess_loop [] currentGeneration currentSecretVersion = False"
| "previousSuccess_loop (c # cs) currentGeneration currentSecretVersion =
     (if Type c = typeLDAPConnectionValid \<and> Status c = ConditionTrue
          \<and> ObservedGeneration c = currentGeneration then
        (let matches = FindStringSubmatch (Message c) in
         if length matches \<noteq> 2 then
           previousSuccess_loop cs currentGeneration currentSecretVersion
         else if matches ! 1 = currentSecretVersion then True
         else previousSuccess_loop cs currentGeneration currentSecretVersion)
      else previousSuccess_loop cs currentGeneration currentSecretVersion)"

definition hasPreviousSuccessfulConditionForCurrentSpecGenerationAndSecretVersion ::
  "LDAPIdentityProvider \<Rightarrow> string \<Rightarrow> bool" where
  "hasPreviousSuccessfulConditionForCurrentSpecGenerationAndSecretVersion upstream currentSecretVersion =
     previousSuccess_loop (Conditions (idp_Status upstream)) (Generation upstream) currentSecretVersion"

text \<open>\<open>None\<close> is the nil condition ("no need to update this condition"). The timeout of
  the context bounds the dialer's call and has no counterpart here.\<close>

definition validateFinishedConfig ::
  "controller_env \<Rightarrow> LDAPIdentityProvider \<Rightarrow> ProviderConfig \<Rightarrow> string \<Rightarrow> world
     \<Rightarrow> Condition option \<times> world" where
  "validateFinishedConfig env upstream config currentSecretVersion w =
     (let ldapProvider = New config in
      if hasPreviousSuccessfulConditionForCurrentSpecGenerationAndSecretVersion upstream currentSecretVersion
      then (None, w)
      else if length (DryRunAuthenticationUsername (Spec upstream)) > 0 then
        (case dryRunAuthentication env upstream ldapProvider currentSecretVersion w of
           (c, w') \<Rightarrow> (Some c, w'))
      else
        (case testConnection env upstream config ldapProvider currentSecretVersion w of
           (c, w') \<Rightarrow> (Some c, w')))"

text \<open>
  Modelled from the spec: \<^verbatim>\<open>mergeConditions\<close>, which \<^verbatim>\<open>updateStatus\<close> calls, is declared
  in a file of the package that is not part of the sources at hand. The spec (4.E, steps 3
  and 4) says: "Merge computed conditions into the object status: a condition whose type
  matches an existing condition of that type replaces it; transition time updates only if
  status flipped. observedGeneration is set to the object's current generation." and
  "Ready if no condition has status=False among those computed; else Error", the phase
  being what the code derives from the returned flag. \<open>t\<close> is the clock reading.
\<close>

fun mergeCondition :: "Condition list \<Rightarrow> Condition \<Rightarrow> Condition list" where
  "mergeCondition [] new = [new]"
| "mergeCondition (old # rest) new =
     (if Type old = Type new then
        (if Status old = Status new
         then new\<lparr>LastTransitionTime := LastTransitionTime old\<rparr>
         else new) # rest
      else old # mergeCondition rest new)"

fun mergeConditions :: "Condition list \<Rightarrow> int \<Rightarrow> Condition list \<Rightarrow> nat \<Rightarrow> bool \<times> Condition list" where
  "mergeConditions [] observedGeneration conditionsToUpdate t = (False, conditionsToUpdate)"
| "mergeConditions (c # cs) observedGeneration conditionsToUpdate t =
     (let cond = c\<lparr>LastTransitionTime := t, ObservedGeneration := observedGeneration\<rparr>;
          (hadErrorCondition, merged) =
             mergeConditions cs observedGeneration (mergeCondition conditionsToUpdate cond) t
      in (Status cond = ConditionFalse \<or> hadErrorCondition, merged))"

text \<open>\<^verbatim>\<open>updateStatus\<close>: the result is \<^verbatim>\<open>hadErrorCondition\<close>; an \<^verbatim>\<open>UpdateStatus\<close> request is
  recorded in the world (a failure of the request is only logged by the code).\<close>

definition updateStatus ::
  "controller_env \<Rightarrow> LDAPIdentityProvider \<Rightarrow> Condition list \<Rightarrow> world \<Rightarrow> bool \<times> world" where
  "updateStatus env upstream conditions w =
     (case mergeConditions conditions (Generation upstream)
             (Conditions (idp_Status upstream)) (now env) of
        (hadErrorCondition, merged) \<Rightarrow>
          let updated = upstream\<lparr>idp_Status :=
                \<lparr>Phase = (if hadErrorCondition then LDAPPhaseError else LDAPPhaseReady),
                 Conditions = merged\<rparr>\<rparr>
          in if upstream = updated then (hadErrorCondition, w)
             else (hadErrorCondition, w\<lparr>status_updates := status_updates w @ [updated]\<rparr>))"

text \<open>The first half of \<^verbatim>\<open>validateUpstream\<close> (up to the call of \<^verbatim>\<open>updateStatus\<close>): the
  candidate configuration and the list of computed conditions.\<close>

definition initialConfig :: "LDAPIdentityProvider \<Rightarrow> ProviderConfig" where
  "initialConfig upstream =
     \<lparr>Name = obj_Name upstream,
      Host = spec_Host (Spec upstream),
      CABundle = [],
      BindUsername = [],
      BindPassword = [],
      UserSearch =
        \<lparr>Base = spec_Base (spec_UserSearch (Spec upstream)),
         Filter = spec_Filter (spec_UserSearch (Spec upstream)),
         UsernameAttribute = Username (Attributes (spec_UserSearch (Spec upstream))),
         UIDAttribute = UID (Attributes (spec_UserSearch (Spec upstream)))\<rparr>\<rparr>"

definition computeConditions ::
  "controller_env \<Rightarrow> LDAPIdentityProvider \<Rightarrow> world \<Rightarrow> Condition list \<times> ProviderConfig \<times> world" where
  "computeConditions env upstream w =
     (case validateSecret env upstream (initialConfig upstream) of
        (secretValidCondition, currentSecretVersion, config1) \<Rightarrow>
          case validateTLSConfig env upstream config1 of
            (tlsValidCondition, config2) \<Rightarrow>
              let conditions = [secretValidCondition, tlsValidCondition] in
              if Status secretValidCondition = ConditionTrue
                 \<and> Status tlsValidCondition = ConditionTrue then
                (case validateFinishedConfig env upstream config2 currentSecretVersion w of
                   (None, w') \<Rightarrow> (conditions, config2, w')
                 | (Some finishedConfigCondition, w') \<Rightarrow>
                     (conditions @ [finishedConfigCondition], config2, w'))
              else (conditions, config2, w))"

definition validateUpstream ::
  "controller_env \<Rightarrow> LDAPIdentityProvider \<Rightarrow> world \<Rightarrow> Provider option \<times> world" where
  "validateUpstream env upstream w =
     (case computeConditions env upstream w of
        (conditions, config, w1) \<Rightarrow>
          case updateStatus env upstream conditions w1 of
            (hadErrorCondition, w2) \<Rightarrow>
              if hadErrorCondition then (None, w2) else (Some (New config), w2))"

text \<open>The loop of \<^verbatim>\<open>Sync\<close> over the listed providers, with its two accumulators.\<close>

fun Sync_loop ::
  "controller_env \<Rightarrow> LDAPIdentityProvider list \<Rightarrow> bool \<Rightarrow> Provider list \<Rightarrow> world
     \<Rightarrow> bool \<times> Provider list \<times> world" where
  "Sync_loop env [] requeue validatedUpstreams w = (requeue, validatedUpstreams, w)"
| "Sync_loop env (upstream # rest) requeue validatedUpstreams w =
     (case validateUpstream env upstream w of
        (None, w') \<Rightarrow> Sync_loop env rest True validatedUpstreams w'
      | (Some valid, w') \<Rightarrow> Sync_loop env rest requeue (validatedUpstreams @ [valid]) w')"

definition SetLDAPIdentityProviders :: "Provider list \<Rightarrow> world \<Rightarrow> world" where
  "SetLDAPIdentityProviders ps w = w\<lparr>idp_cache := ps, set_calls := Suc (set_calls w)\<rparr>"

text \<open>\<^verbatim>\<open>Sync\<close>: \<open>None\<close> is the nil error.\<close>

definition Sync :: "controller_env \<Rightarrow> world \<Rightarrow> sync_error option \<times> world" where
  "Sync env w =
     (case lister_List env of
        Inl err \<Rightarrow> (Some (ErrFailedToList (''failed to list LDAPIdentityProviders: '' @ err)), w)
      | Inr actualUpstreams \<Rightarrow>
          case Sync_loop env actualUpstreams False [] w of
            (requeue, validatedUpstreams, w') \<Rightarrow>
              let w'' = SetLDAPIdentityProviders validatedUpstreams w' in
              if requeue then (Some ErrSyntheticRequeue, w'') else (None, w''))"

section \<open>Auxiliary notions for the statements\<close>




section \<open>Example inputs\<close>

text \<open>A provider in namespace \<^verbatim>\<open>ns\<close> that binds with the secret \<^verbatim>\<open>bind-secret\<close>, and
  variants of it; an environment whose only secret is \<^verbatim>\<open>ns/bind-secret\<close>, whose LDAP
  server accepts every connection and finds every user, and whose decoder rejects every
  text; and variants of that environment.\<close>

definition example_upstream :: LDAPIdentityProvider where
  "example_upstream =
     \<lparr>obj_Name = ''my-ldap'', obj_Namespace = ''ns'', Generation = 3,
      Spec = \<lparr>spec_Host = ''[::1]:636'', spec_TLS = None,
              spec_Bind = \<lparr>SecretName = ''bind-secret''\<rparr>,
              spec_UserSearch = \<lparr>spec_Base = ''ou=users'', spec_Filter = ''uid={}'',
                                 Attributes = \<lparr>Username = ''uid'', UID = ''uidNumber''\<rparr>\<rparr>,
              DryRunAuthenticationUsername = []\<rparr>,
      idp_Status = \<lparr>Phase = LDAPPhasePending, Conditions = []\<rparr>\<rparr>"

definition example_secret :: "string \<Rightarrow> string \<Rightarrow> Secret" where
  "example_secret ty rv =
     \<lparr>secret_Type = ty,
      Data = [''username'' \<mapsto> ''cn=admin'', ''password'' \<mapsto> ''pw''],
      ResourceVersion = rv\<rparr>"

definition example_env :: "LDAPIdentityProvider list \<Rightarrow> Secret \<Rightarrow> controller_env" where
  "example_env ups s =
     \<lparr>lister_List = Inr ups,
      secrets_Get = (\<lambda>ns name. if ns = ''ns'' \<and> name = ''bind-secret'' then Inr s
                                else Inl ''secret not found''),
      TestConnection = (\<lambda>p. None),
      DryRunAuthenticateUser = (\<lambda>p u.
        \<lparr>resp_UserName = u, resp_UserUID = ''1000'', authenticated = True, dry_err = None\<rparr>),
      base64_DecodeString = (\<lambda>s. Inl ''illegal base64 data''),
      AppendCertsFromPEM = (\<lambda>b. False),
      quote = (\<lambda>s. [CHR 0x22] @ s @ [CHR 0x22]),
      errNoCertificates = ''no certificates found'',
      now = 100\<rparr>"

definition example_world :: world where
  "example_world = \<lparr>idp_cache = [], set_calls = 0, status_updates = [], dials = []\<rparr>"

definition example_config :: ProviderConfig where
  "example_config = (initialConfig example_upstream)\<lparr>BindUsername := ''cn=admin'', BindPassword := ''pw''\<rparr>"

definition orphan_upstream :: LDAPIdentityProvider where
  "orphan_upstream =
     example_upstream\<lparr>obj_Name := ''other-ldap'',
        Spec := (Spec example_upstream)\<lparr>spec_Bind := \<lparr>SecretName = ''missing-secret''\<rparr>\<rparr>\<rparr>"

definition validated_upstream :: LDAPIdentityProvider where
  \<open>validated_upstream =
     example_upstream\<lparr>idp_Status :=
       \<lparr>Phase = LDAPPhaseReady,
        Conditions =
          [\<lparr>Type = ''LDAPConnectionValid'', Status = ConditionTrue, ObservedGeneration = 3,
            LastTransitionTime = 50, Reason = reasonSuccess,
            Message = ''successfully able to connect to "[::1]:636" and bind as user "cn=admin" [validated with Secret "bind-secret" at version "4242"]''\<rparr>]\<rparr>\<rparr>\<close>

definition dry_run_upstream :: LDAPIdentityProvider where
  "dry_run_upstream =
     example_upstream\<lparr>Spec := (Spec example_upstream)\<lparr>DryRunAuthenticationUsername := ''alice''\<rparr>\<rparr>"

definition tls_upstream :: LDAPIdentityProvider where
  "tls_upstream =
     example_upstream\<lparr>Spec := (Spec example_upstream)
        \<lparr>spec_TLS := Some \<lparr>CertificateAuthorityData = ''not base64!''\<rparr>\<rparr>\<rparr>"

definition good_env :: controller_env where
  "good_env = example_env [example_upstream, orphan_upstream] (example_secret SecretTypeBasicAuth ''4242'')"

definition empty_version_env :: controller_env where
  "empty_version_env = example_env [example_upstream] (example_secret SecretTypeBasicAuth [])"

definition opaque_env :: controller_env where
  "opaque_env = example_env [example_upstream] (example_secret ''Opaque'' ''1'')"

definition no_username_env :: controller_env where
  "no_username_env = example_env [example_upstream]
     \<lparr>secret_Type = SecretTypeBasicAuth, Data = [''password'' \<mapsto> ''pw''], ResourceVersion = ''7''\<rparr>"

definition dry_error_env :: controller_env where
  "dry_error_env = good_env\<lparr>DryRunAuthenticateUser := (\<lambda>p u.
      \<lparr>resp_UserName = [], resp_UserUID = [], authenticated = False,
       dry_err = Some ''connection refused''\<rparr>)\<rparr>"

definition dry_not_found_env :: controller_env where
  "dry_not_found_env = good_env\<lparr>DryRunAuthenticateUser := (\<lambda>p u.
      \<lparr>resp_UserName = [], resp_UserUID = [], authenticated = False, dry_err = None\<rparr>)\<rparr>"

definition failing_lister_env :: controller_env where
  "failing_lister_env = good_env\<lparr>lister_List := Inl ''informer cache is not synced''\<rparr>"

definition published_world :: world where
  "published_world = example_world\<lparr>idp_cache := [example_config], set_calls := 1\<rparr>"

lemmas example_defs =
  example_upstream_def example_secret_def example_env_def example_world_def example_config_def
  orphan_upstream_def validated_upstream_def dry_run_upstream_def tls_upstream_def
  good_env_def empty_version_env_def opaque_env_def no_username_env_def dry_error_env_def
  dry_not_found_env_def failing_lister_env_def published_world_def initialConfig_def

lemmas eval_defs =
  validateSecret_def validateTLSConfig_def validTLSCondition_def invalidTLSCondition_def
  data_string_def SecretTypeBasicAuth_def BasicAuthUsernameKey_def BasicAuthPasswordKey_def
  typeBindSecretValid_def typeTLSConfigurationValid_def typeLDAPConnectionValid_def
  noTLSConfigurationMessage_def loadedTLSConfigurationMessage_def New_def Let_def

section \<open>The parser on a trailer\<close>














































lemma FindStringSubmatch_shape:
  "FindStringSubmatch s = [] \<or> (\<exists>whole version. FindStringSubmatch s = [whole, version])"
  by (auto simp: FindStringSubmatch_def split: option.splits)

lemma matches_second:
  "(length (FindStringSubmatch s) = 2 \<and> FindStringSubmatch s ! 1 = v)
     \<longleftrightarrow> (\<exists>whole. FindStringSubmatch s = [whole, v])"
  using FindStringSubmatch_shape [of s] by auto

section \<open>The connection check and its messages\<close>

lemma testConnection_fst:
  "Type (fst (testConnection env u cfg p v w)) = typeLDAPConnectionValid"
  "Status (fst (testConnection env u cfg p v w)) =
     (if TestConnection env p = None then ConditionTrue else ConditionFalse)"
  "fst (testConnection env u cfg p v w) = fst (testConnection env u cfg p v w0)"
  "snd (testConnection env u cfg p v w) = w\<lparr>dials := dials w @ [DialTestConnection p]\<rparr>"
  by (simp_all add: testConnection_def Let_def split: option.splits)

lemma dryRunAuthentication_fst:
  "Type (fst (dryRunAuthentication env u p v w)) = typeLDAPConnectionValid"
  "fst (dryRunAuthentication env u p v w) = fst (dryRunAuthentication env u p v w0)"
  "snd (dryRunAuthentication env u p v w)
     = w\<lparr>dials := dials w @ [DialDryRun p (DryRunAuthenticationUsername (Spec u))]\<rparr>"
  by (simp_all add: dryRunAuthentication_def Let_def split: option.splits)

lemma previousSuccess_loop_iff:
  "previousSuccess_loop cs g v \<longleftrightarrow>
     (\<exists>c\<in>set cs. Type c = typeLDAPConnectionValid \<and> Status c = ConditionTrue
        \<and> ObservedGeneration c = g \<and> (\<exists>whole. FindStringSubmatch (Message c) = [whole, v]))"
proof (induction cs)
  case Nil
  show ?case by simp
next
  case (Cons c cs)
  show ?case
  proof (cases "Type c = typeLDAPConnectionValid \<and> Status c = ConditionTrue \<and> ObservedGeneration c = g")
    case False
    then show ?thesis using Cons.IH by auto
  next
    case True
    show ?thesis
    proof (cases "\<exists>whole. FindStringSubmatch (Message c) = [whole, v]")
      case yes: True
      then have "length (FindStringSubmatch (Message c)) = 2 \<and> FindStringSubmatch (Message c) ! 1 = v"
        by (simp only: matches_second)
      with True yes show ?thesis by (auto simp: Let_def)
    next
      case no: False
      then have "\<not> (length (FindStringSubmatch (Message c)) = 2 \<and> FindStringSubmatch (Message c) ! 1 = v)"
        by (simp only: matches_second) simp
      then have "previousSuccess_loop (c # cs) g v = previousSuccess_loop cs g v"
        using True by (auto simp: Let_def)
      with no Cons.IH show ?thesis by auto
    qed
  qed
qed

lemma validateFinishedConfig_cases:
  "validateFinishedConfig env u cfg v w =
     (if hasPreviousSuccessfulConditionForCurrentSpecGenerationAndSecretVersion u v then (None, w)
      else if DryRunAuthenticationUsername (Spec u) \<noteq> []
        then (Some (fst (dryRunAuthentication env u (New cfg) v w)),
              snd (dryRunAuthentication env u (New cfg) v w))
        else (Some (fst (testConnection env u cfg (New cfg) v w)),
              snd (testConnection env u cfg (New cfg) v w)))"
  by (simp add: validateFinishedConfig_def Let_def split: prod.splits)

lemma validateFinishedConfig_None_iff:
  "fst (validateFinishedConfig env u cfg v w) = None
     \<longleftrightarrow> hasPreviousSuccessfulConditionForCurrentSpecGenerationAndSecretVersion u v"
  by (simp add: validateFinishedConfig_cases)

lemma validateFinishedConfig_skip_world:
  "hasPreviousSuccessfulConditionForCurrentSpecGenerationAndSecretVersion u v
     \<Longrightarrow> snd (validateFinishedConfig env u cfg v w) = w"
  by (simp add: validateFinishedConfig_cases)

lemma validateFinishedConfig_run_world:
  "\<not> hasPreviousSuccessfulConditionForCurrentSpecGenerationAndSecretVersion u v
     \<Longrightarrow> \<exists>d. snd (validateFinishedConfig env u cfg v w) = w\<lparr>dials := dials w @ [d]\<rparr>"
  by (auto simp: validateFinishedConfig_cases testConnection_fst dryRunAuthentication_fst)

lemma validateFinishedConfig_Type:
  "fst (validateFinishedConfig env u cfg v w) = Some c \<Longrightarrow> Type c = typeLDAPConnectionValid"
  by (auto simp: validateFinishedConfig_cases testConnection_fst dryRunAuthentication_fst
      split: if_splits)

lemma validateFinishedConfig_indep:
  "fst (validateFinishedConfig env u cfg v w) = fst (validateFinishedConfig env u cfg v w0)"
  using testConnection_fst(3) [of env u cfg "New cfg" v w w0]
    dryRunAuthentication_fst(2) [of env u "New cfg" v w w0]
  by (simp add: validateFinishedConfig_cases)

lemma example_trailer_parse:
  \<open>FindStringSubmatch ''successfully able to connect to "[::1]:636" and bind as user "cn=admin" [validated with Secret "bind-secret" at version "4242"]''
     = ['' [validated with Secret "bind-secret" at version "4242"]'', ''4242'']\<close>
  by code_simp










text \<open>The round trip on the example provider, whose host \<^verbatim>\<open>[::1]:636\<close> contains a
  square bracket.\<close>

lemma good_validateSecret:
  "validateSecret good_env example_upstream (initialConfig example_upstream)
     = (\<lparr>Type = typeBindSecretValid, Status = ConditionTrue, ObservedGeneration = 0,
          LastTransitionTime = 0, Reason = reasonSuccess, Message = ''loaded bind secret''\<rparr>,
        ''4242'', example_config)"
  by (simp add: validateSecret_def Let_def example_defs data_string_def SecretTypeBasicAuth_def
      BasicAuthUsernameKey_def BasicAuthPasswordKey_def)






section \<open>Which conditions are computed\<close>

lemma validateSecret_Type:
  "Type (fst (validateSecret env u cfg)) = typeBindSecretValid"
  by (simp add: validateSecret_def Let_def split: sum.splits)

lemma validateSecret_Status:
  "Status (fst (validateSecret env u cfg)) = ConditionTrue
   \<or> Status (fst (validateSecret env u cfg)) = ConditionFalse"
  by (simp add: validateSecret_def Let_def split: sum.splits)

lemma validateTLSConfig_Type:
  "Type (fst (validateTLSConfig env u cfg)) = typeTLSConfigurationValid"
  by (simp add: validateTLSConfig_def validTLSCondition_def invalidTLSCondition_def
      split: option.splits sum.splits)

lemma validateTLSConfig_Status:
  "Status (fst (validateTLSConfig env u cfg)) = ConditionTrue
   \<or> Status (fst (validateTLSConfig env u cfg)) = ConditionFalse"
  by (simp add: validateTLSConfig_def validTLSCondition_def invalidTLSCondition_def
      split: option.splits sum.splits)

lemma type_names_distinct:
  "typeBindSecretValid \<noteq> typeLDAPConnectionValid"
  "typeTLSConfigurationValid \<noteq> typeLDAPConnectionValid"
  "typeBindSecretValid \<noteq> typeTLSConfigurationValid"
  by (simp_all add: typeBindSecretValid_def typeLDAPConnectionValid_def typeTLSConfigurationValid_def)

lemma computeConditions_cases:
  "computeConditions env u w =
     (let sc = fst (validateSecret env u (initialConfig u));
          ver = fst (snd (validateSecret env u (initialConfig u)));
          tc = fst (validateTLSConfig env u (snd (snd (validateSecret env u (initialConfig u)))));
          cfg = snd (validateTLSConfig env u (snd (snd (validateSecret env u (initialConfig u)))))
      in if Status sc = ConditionTrue \<and> Status tc = ConditionTrue then
           (case fst (validateFinishedConfig env u cfg ver w) of
              None \<Rightarrow> ([sc, tc], cfg, snd (validateFinishedConfig env u cfg ver w))
            | Some fc \<Rightarrow> ([sc, tc, fc], cfg, snd (validateFinishedConfig env u cfg ver w)))
         else ([sc, tc], cfg, w))"
  by (simp add: computeConditions_def Let_def split: prod.splits option.splits)

lemma computeConditions_indep:
  "fst (computeConditions env u w) = fst (computeConditions env u w0)"
  "fst (snd (computeConditions env u w)) = fst (snd (computeConditions env u w0))"
  using validateFinishedConfig_indep [of env u _ _ w w0]
  by (simp_all add: computeConditions_cases Let_def split: option.splits)

lemma computeConditions_frame:
  "idp_cache (snd (snd (computeConditions env u w))) = idp_cache w"
  "set_calls (snd (snd (computeConditions env u w))) = set_calls w"
  by (simp_all add: computeConditions_cases validateFinishedConfig_cases
      testConnection_fst dryRunAuthentication_fst Let_def split: option.splits)

lemma computeConditions_distinct:
  "distinct (map Type (fst (computeConditions env u w)))"
proof -
  have "Type fc = typeLDAPConnectionValid"
    if "fst (validateFinishedConfig env u cfg v w) = Some fc" for cfg v fc
    using that by (rule validateFinishedConfig_Type)
  then show ?thesis
    using type_names_distinct
    by (auto simp: computeConditions_cases Let_def validateSecret_Type validateTLSConfig_Type
        split: option.splits)
qed

lemma computeConditions_hd:
  "fst (validateSecret env u (initialConfig u)) \<in> set (fst (computeConditions env u w))"
  by (simp add: computeConditions_cases Let_def split: option.splits)

lemma computeConditions_invalid:
  assumes "Status (fst (validateSecret env u (initialConfig u))) \<noteq> ConditionTrue
         \<or> Status (fst (validateTLSConfig env u (snd (snd (validateSecret env u (initialConfig u))))))
             \<noteq> ConditionTrue"
  shows "computeConditions env u w =
           ([fst (validateSecret env u (initialConfig u)),
             fst (validateTLSConfig env u (snd (snd (validateSecret env u (initialConfig u)))))],
            snd (validateTLSConfig env u (snd (snd (validateSecret env u (initialConfig u))))), w)"
  using assms by (auto simp: computeConditions_cases Let_def)

lemma invalid_has_False:
  assumes "Status (fst (validateSecret env u (initialConfig u))) \<noteq> ConditionTrue
         \<or> Status (fst (validateTLSConfig env u (snd (snd (validateSecret env u (initialConfig u))))))
             \<noteq> ConditionTrue"
  shows "\<exists>c\<in>set (fst (computeConditions env u w)). Status c = ConditionFalse"
  using assms validateSecret_Status [of env u "initialConfig u"]
    validateTLSConfig_Status [of env u "snd (snd (validateSecret env u (initialConfig u)))"]
  by (auto simp: computeConditions_invalid [OF assms])

text \<open>
  C2. For a provider whose \<^verbatim>\<open>BindSecretValid\<close> and \<^verbatim>\<open>TLSConfigurationValid\<close> conditions
  are both True, \<^verbatim>\<open>validateFinishedConfig\<close> returns nil if and only if the stored status
  holds a condition of type \<^verbatim>\<open>LDAPConnectionValid\<close> with status True, with the object's
  current generation as observed generation, and with a message from which the parser reads
  the currently observed resource version of the bind secret. It returns nil exactly when
  no \<^verbatim>\<open>LDAPConnectionValid\<close> condition is among the computed ones, and exactly when
  nothing is dialled.
\<close>

theorem skip_iff_previous_success:
  assumes vs: "validateSecret env upstream (initialConfig upstream)
                 = (secretValidCondition, currentSecretVersion, config1)"
    and vt: "validateTLSConfig env upstream config1 = (tlsValidCondition, config2)"
    and ok: "Status secretValidCondition = ConditionTrue" "Status tlsValidCondition = ConditionTrue"
  shows "(fst (validateFinishedConfig env upstream config2 currentSecretVersion w) = None
          \<longleftrightarrow> (\<exists>c\<in>set (Conditions (idp_Status upstream)).
                 Type c = typeLDAPConnectionValid \<and> Status c = ConditionTrue
                 \<and> ObservedGeneration c = Generation upstream
                 \<and> (\<exists>whole. FindStringSubmatch (Message c) = [whole, currentSecretVersion])))
       \<and> ((\<forall>c\<in>set (fst (computeConditions env upstream w)). Type c \<noteq> typeLDAPConnectionValid)
          \<longleftrightarrow> fst (validateFinishedConfig env upstream config2 currentSecretVersion w) = None)
       \<and> (dials (snd (snd (computeConditions env upstream w))) = dials w
          \<longleftrightarrow> fst (validateFinishedConfig env upstream config2 currentSecretVersion w) = None)"
proof -
  let ?skip = "hasPreviousSuccessfulConditionForCurrentSpecGenerationAndSecretVersion upstream currentSecretVersion"
  let ?fin = "validateFinishedConfig env upstream config2 currentSecretVersion w"
  have none: "fst ?fin = None \<longleftrightarrow> ?skip"
    by (rule validateFinishedConfig_None_iff)
  have 1: "fst ?fin = None
          \<longleftrightarrow> (\<exists>c\<in>set (Conditions (idp_Status upstream)).
                 Type c = typeLDAPConnectionValid \<and> Status c = ConditionTrue
                 \<and> ObservedGeneration c = Generation upstream
                 \<and> (\<exists>whole. FindStringSubmatch (Message c) = [whole, currentSecretVersion]))"
    unfolding none
      hasPreviousSuccessfulConditionForCurrentSpecGenerationAndSecretVersion_def
    by (rule previousSuccess_loop_iff)
  have types: "Type secretValidCondition \<noteq> typeLDAPConnectionValid"
    "Type tlsValidCondition \<noteq> typeLDAPConnectionValid"
    using validateSecret_Type [of env upstream "initialConfig upstream"]
      validateTLSConfig_Type [of env upstream config1] vs vt type_names_distinct
    by simp_all
  have cc: "computeConditions env upstream w =
      (case fst ?fin of
         None \<Rightarrow> ([secretValidCondition, tlsValidCondition], config2, snd ?fin)
       | Some fc \<Rightarrow> ([secretValidCondition, tlsValidCondition, fc], config2, snd ?fin))"
    using vs vt ok by (simp add: computeConditions_cases)
  have 2: "(\<forall>c\<in>set (fst (computeConditions env upstream w)). Type c \<noteq> typeLDAPConnectionValid)
          \<longleftrightarrow> fst ?fin = None"
  proof (cases "fst ?fin")
    case None
    then show ?thesis using types by (simp add: cc)
  next
    case (Some fc)
    then have "Type fc = typeLDAPConnectionValid"
      by (rule validateFinishedConfig_Type)
    with Some show ?thesis by (simp add: cc)
  qed
  have 3: "dials (snd (snd (computeConditions env upstream w))) = dials w \<longleftrightarrow> fst ?fin = None"
  proof (cases ?skip)
    case True
    then have "snd ?fin = w" by (rule validateFinishedConfig_skip_world)
    moreover have "fst ?fin = None" using True none by simp
    ultimately show ?thesis by (simp add: cc)
  next
    case False
    then obtain d where "snd ?fin = w\<lparr>dials := dials w @ [d]\<rparr>"
      using validateFinishedConfig_run_world by blast
    moreover obtain fc where "fst ?fin = Some fc" using False none by (cases "fst ?fin") auto
    ultimately show ?thesis by (simp add: cc)
  qed
  from 1 2 3 show ?thesis by blast
qed

text \<open>A provider that was validated at generation 3 with version 4242 of its secret is not
  validated again.\<close>

theorem skip_iff_previous_success_witness:
  "fst (validateFinishedConfig good_env validated_upstream example_config ''4242'' example_world)
     = None
   \<and> dials (snd (snd (computeConditions good_env validated_upstream example_world)))
     = dials example_world"
proof -
  have vs: "validateSecret good_env validated_upstream (initialConfig validated_upstream)
     = (\<lparr>Type = typeBindSecretValid, Status = ConditionTrue, ObservedGeneration = 0,
          LastTransitionTime = 0, Reason = reasonSuccess, Message = ''loaded bind secret''\<rparr>,
        ''4242'', example_config)"
    by (simp add: example_defs eval_defs)
  have vt: "validateTLSConfig good_env validated_upstream example_config
     = (validTLSCondition noTLSConfigurationMessage, example_config)"
    by (simp add: validateTLSConfig_def validated_upstream_def example_upstream_def)
  have prior: "\<exists>c\<in>set (Conditions (idp_Status validated_upstream)).
                 Type c = typeLDAPConnectionValid \<and> Status c = ConditionTrue
                 \<and> ObservedGeneration c = Generation validated_upstream
                 \<and> (\<exists>whole. FindStringSubmatch (Message c) = [whole, ''4242''])"
    using example_trailer_parse
    by (simp add: validated_upstream_def example_upstream_def typeLDAPConnectionValid_def)
  show ?thesis
    using skip_iff_previous_success [OF vs vt, of example_world] prior
    by (simp add: validTLSCondition_def)
qed

section \<open>The bind secret, the TLS configuration and the dry run\<close>

text \<open>
  C5 (as amended). \<^verbatim>\<open>validateSecret\<close> yields \<^verbatim>\<open>BindSecretValid\<close> with status True if and
  only if the referenced secret exists, has the basic-auth type and has non-empty
  \<^verbatim>\<open>username\<close> and \<^verbatim>\<open>password\<close> entries. When the lister finds no secret the condition is
  False with reason NotFound; a secret of another type is rejected with reason WrongType; a
  basic-auth secret with a missing or empty username or password is rejected with reason
  MissingKeys. Whenever the secret exists, its resource version is the one recorded.
\<close>

theorem validateSecret_condition:
  assumes "validateSecret env upstream config = (secretValidCondition, currentSecretVersion, config')"
  shows "Type secretValidCondition = typeBindSecretValid
     \<and> (Status secretValidCondition = ConditionTrue \<longleftrightarrow>
          (\<exists>secret. secrets_Get env (obj_Namespace upstream) (SecretName (spec_Bind (Spec upstream))) = Inr secret
             \<and> secret_Type secret = SecretTypeBasicAuth
             \<and> data_string secret BasicAuthUsernameKey \<noteq> []
             \<and> data_string secret BasicAuthPasswordKey \<noteq> []))
     \<and> (\<forall>err. secrets_Get env (obj_Namespace upstream) (SecretName (spec_Bind (Spec upstream))) = Inl err
          \<longrightarrow> Status secretValidCondition = ConditionFalse \<and> Reason secretValidCondition = reasonNotFound)
     \<and> (\<forall>secret. secrets_Get env (obj_Namespace upstream) (SecretName (spec_Bind (Spec upstream))) = Inr secret
          \<longrightarrow> currentSecretVersion = ResourceVersion secret
            \<and> (secret_Type secret \<noteq> SecretTypeBasicAuth
                 \<longrightarrow> Status secretValidCondition = ConditionFalse
                   \<and> Reason secretValidCondition = reasonWrongType)
            \<and> (secret_Type secret = SecretTypeBasicAuth
                 \<and> (data_string secret BasicAuthUsernameKey = [] \<or> data_string secret BasicAuthPasswordKey = [])
                 \<longrightarrow> Status secretValidCondition = ConditionFalse
                   \<and> Reason secretValidCondition = reasonMissingKeys))"
proof (cases "secrets_Get env (obj_Namespace upstream) (SecretName (spec_Bind (Spec upstream)))")
  case (Inl err)
  with assms show ?thesis
    by (auto simp: validateSecret_def Let_def)
next
  case (Inr secret)
  show ?thesis
  proof (cases "secret_Type secret = SecretTypeBasicAuth")
    case False
    with Inr assms show ?thesis
      by (auto simp: validateSecret_def Let_def)
  next
    case True
    show ?thesis
    proof (cases "data_string secret BasicAuthUsernameKey = [] \<or> data_string secret BasicAuthPasswordKey = []")
      case bad: True
      with True Inr assms show ?thesis
        by (auto simp: validateSecret_def Let_def)
    next
      case good: False
      with True Inr assms show ?thesis
        by (auto simp: validateSecret_def Let_def)
    qed
  qed
qed

text \<open>The example secret is accepted.\<close>

theorem validateSecret_condition_witness:
  "Status (fst (validateSecret good_env example_upstream (initialConfig example_upstream)))
     = ConditionTrue
   \<and> (\<exists>secret. secrets_Get good_env ''ns'' ''bind-secret'' = Inr secret
         \<and> secret_Type secret = SecretTypeBasicAuth
         \<and> data_string secret BasicAuthUsernameKey \<noteq> []
         \<and> data_string secret BasicAuthPasswordKey \<noteq> [])"
proof -
  have ns: "obj_Namespace example_upstream = ''ns''"
    "SecretName (spec_Bind (Spec example_upstream)) = ''bind-secret''"
    by (simp_all add: example_upstream_def)
  show ?thesis
    using validateSecret_condition [OF good_validateSecret]
    unfolding good_validateSecret ns by simp
qed

text \<open>A basic-auth secret without a \<^verbatim>\<open>username\<close> entry is rejected with reason MissingKeys,
  which is not WrongType.\<close>

theorem missing_keys_reason_counterexample:
  "secrets_Get no_username_env (obj_Namespace example_upstream)
        (SecretName (spec_Bind (Spec example_upstream)))
     = Inr \<lparr>secret_Type = SecretTypeBasicAuth, Data = [''password'' \<mapsto> ''pw''],
            ResourceVersion = ''7''\<rparr>
   \<and> Status (fst (validateSecret no_username_env example_upstream (initialConfig example_upstream)))
       = ConditionFalse
   \<and> Reason (fst (validateSecret no_username_env example_upstream (initialConfig example_upstream)))
       = reasonMissingKeys
   \<and> Reason (fst (validateSecret no_username_env example_upstream (initialConfig example_upstream)))
       \<noteq> reasonWrongType"
  by (simp add: example_defs eval_defs)

text \<open>
  C6. \<^verbatim>\<open>validateTLSConfig\<close> returns \<^verbatim>\<open>TLSConfigurationValid\<close> with status True and message
  "no TLS configuration provided" when \<^verbatim>\<open>spec.tls\<close> is absent, True with message "loaded
  TLS configuration" when the CA data is empty, and otherwise decodes the CA data as base64
  and requires a PEM certificate in it: on success the condition is True with message "loaded
  TLS configuration" and the decoded bundle is attached to the candidate configuration; when
  the decoding fails or no certificate is found the condition is False with reason
  InvalidTLSConfig and the configuration is unchanged.
\<close>

theorem validateTLSConfig_condition:
  assumes "validateTLSConfig env upstream config = (tlsValidCondition, config')"
  shows "Type tlsValidCondition = typeTLSConfigurationValid
     \<and> (spec_TLS (Spec upstream) = None
          \<longrightarrow> Status tlsValidCondition = ConditionTrue
            \<and> Message tlsValidCondition = ''no TLS configuration provided'' \<and> config' = config)
     \<and> (\<forall>tlsSpec. spec_TLS (Spec upstream) = Some tlsSpec
          \<longrightarrow> (CertificateAuthorityData tlsSpec = []
                 \<longrightarrow> Status tlsValidCondition = ConditionTrue
                   \<and> Message tlsValidCondition = ''loaded TLS configuration'' \<and> config' = config)
            \<and> (CertificateAuthorityData tlsSpec \<noteq> []
                 \<longrightarrow> (\<forall>err. base64_DecodeString env (CertificateAuthorityData tlsSpec) = Inl err
                        \<longrightarrow> Status tlsValidCondition = ConditionFalse
                          \<and> Reason tlsValidCondition = reasonInvalidTLSConfig \<and> config' = config)
                   \<and> (\<forall>bundle. base64_DecodeString env (CertificateAuthorityData tlsSpec) = Inr bundle
                        \<longrightarrow> (\<not> AppendCertsFromPEM env bundle
                               \<longrightarrow> Status tlsValidCondition = ConditionFalse
                                 \<and> Reason tlsValidCondition = reasonInvalidTLSConfig \<and> config' = config)
                          \<and> (AppendCertsFromPEM env bundle
                               \<longrightarrow> Status tlsValidCondition = ConditionTrue
                                 \<and> Message tlsValidCondition = ''loaded TLS configuration''
                                 \<and> config' = config\<lparr>CABundle := bundle\<rparr>))))"
  using assms
  by (auto simp: validateTLSConfig_def validTLSCondition_def invalidTLSCondition_def
      noTLSConfigurationMessage_def loadedTLSConfigurationMessage_def
      split: option.splits sum.splits if_splits)

text \<open>CA data that is not base64 is rejected.\<close>

theorem validateTLSConfig_condition_witness:
  "Status (fst (validateTLSConfig good_env tls_upstream example_config)) = ConditionFalse
   \<and> Reason (fst (validateTLSConfig good_env tls_upstream example_config)) = reasonInvalidTLSConfig
   \<and> snd (validateTLSConfig good_env tls_upstream example_config) = example_config"
proof -
  have run: "validateTLSConfig good_env tls_upstream example_config
      = (fst (validateTLSConfig good_env tls_upstream example_config),
         snd (validateTLSConfig good_env tls_upstream example_config))"
    by simp
  have tls: "spec_TLS (Spec tls_upstream) = Some \<lparr>CertificateAuthorityData = ''not base64!''\<rparr>"
    by (simp add: tls_upstream_def example_upstream_def)
  have dec: "base64_DecodeString good_env ''not base64!'' = Inl ''illegal base64 data''"
    by (simp add: good_env_def example_env_def)
  show ?thesis
    using validateTLSConfig_condition [OF run] tls dec by simp
qed

text \<open>
  C7 (as amended). In a dry run, the condition written when the user is not found and the
  condition written when the dialer reports an error both have status False and the same
  reason, AuthenticationDryRunError; they differ in their messages, unless the text of the
  error is "user not found" itself.
\<close>

theorem dry_run_failures_share_reason:
  assumes "dry_err (DryRunAuthenticateUser env1 ldapProvider (DryRunAuthenticationUsername (Spec upstream))) = Some err"
    and "dry_err (DryRunAuthenticateUser env2 ldapProvider (DryRunAuthenticationUsername (Spec upstream))) = None"
    and "\<not> authenticated (DryRunAuthenticateUser env2 ldapProvider (DryRunAuthenticationUsername (Spec upstream)))"
  shows "Status (fst (dryRunAuthentication env1 upstream ldapProvider v w)) = ConditionFalse
     \<and> Status (fst (dryRunAuthentication env2 upstream ldapProvider v w)) = ConditionFalse
     \<and> Reason (fst (dryRunAuthentication env1 upstream ldapProvider v w)) = reasonAuthenticationDryRunError
     \<and> Reason (fst (dryRunAuthentication env2 upstream ldapProvider v w)) = reasonAuthenticationDryRunError
     \<and> (Message (fst (dryRunAuthentication env1 upstream ldapProvider v w))
          = Message (fst (dryRunAuthentication env2 upstream ldapProvider v w))
        \<longleftrightarrow> err = ''user not found'')"
  using assms by (simp add: dryRunAuthentication_def Let_def)

text \<open>A refused connection and an unknown user: same reason, different messages.\<close>

theorem dry_run_failures_share_reason_witness:
  "Reason (fst (dryRunAuthentication dry_error_env dry_run_upstream (New example_config)
                  ''4242'' example_world)) = reasonAuthenticationDryRunError
   \<and> Reason (fst (dryRunAuthentication dry_not_found_env dry_run_upstream (New example_config)
                  ''4242'' example_world)) = reasonAuthenticationDryRunError
   \<and> Message (fst (dryRunAuthentication dry_error_env dry_run_upstream (New example_config)
                  ''4242'' example_world))
       \<noteq> Message (fst (dryRunAuthentication dry_not_found_env dry_run_upstream (New example_config)
                  ''4242'' example_world))"
proof -
  have "dry_err (DryRunAuthenticateUser dry_error_env (New example_config)
        (DryRunAuthenticationUsername (Spec dry_run_upstream))) = Some ''connection refused''"
    "dry_err (DryRunAuthenticateUser dry_not_found_env (New example_config)
        (DryRunAuthenticationUsername (Spec dry_run_upstream))) = None"
    "\<not> authenticated (DryRunAuthenticateUser dry_not_found_env (New example_config)
        (DryRunAuthenticationUsername (Spec dry_run_upstream)))"
    by (simp_all add: example_defs)
  from dry_run_failures_share_reason [OF this, of "''4242''" example_world] show ?thesis
    by simp
qed

text \<open>The reason does not tell the two failures apart.\<close>

theorem dry_run_reason_counterexample:
  "dry_err (DryRunAuthenticateUser dry_error_env (New example_config)
        (DryRunAuthenticationUsername (Spec dry_run_upstream))) = Some ''connection refused''
   \<and> dry_err (DryRunAuthenticateUser dry_not_found_env (New example_config)
        (DryRunAuthenticationUsername (Spec dry_run_upstream))) = None
   \<and> \<not> authenticated (DryRunAuthenticateUser dry_not_found_env (New example_config)
        (DryRunAuthenticationUsername (Spec dry_run_upstream)))
   \<and> Reason (fst (dryRunAuthentication dry_error_env dry_run_upstream (New example_config)
                    ''4242'' example_world))
       = Reason (fst (dryRunAuthentication dry_not_found_env dry_run_upstream (New example_config)
                    ''4242'' example_world))"
  by (simp add: dryRunAuthentication_def Let_def example_defs)

section \<open>Merging and writing the status\<close>

lemma mergeConditions_hadError:
  "fst (mergeConditions conds g existing t) \<longleftrightarrow> (\<exists>c\<in>set conds. Status c = ConditionFalse)"
proof (induction conds arbitrary: existing)
  case Nil
  show ?case by simp
next
  case (Cons c cs)
  have "fst (mergeConditions (c # cs) g existing t)
        = (Status c = ConditionFalse
           \<or> fst (mergeConditions cs g
                  (mergeCondition existing (c\<lparr>LastTransitionTime := t, ObservedGeneration := g\<rparr>)) t))"
    by (simp add: Let_def split: prod.splits)
  then show ?case using Cons.IH by simp
qed

lemma updateStatus_hadError:
  "fst (updateStatus env u conds w) \<longleftrightarrow> (\<exists>c\<in>set conds. Status c = ConditionFalse)"
proof -
  have "fst (updateStatus env u conds w)
        = fst (mergeConditions conds (Generation u) (Conditions (idp_Status u)) (now env))"
    by (simp add: updateStatus_def Let_def split: prod.splits)
  then show ?thesis by (simp add: mergeConditions_hadError)
qed

lemma updateStatus_frame:
  "idp_cache (snd (updateStatus env u conds w)) = idp_cache w"
  "set_calls (snd (updateStatus env u conds w)) = set_calls w"
  "dials (snd (updateStatus env u conds w)) = dials w"
  by (simp_all add: updateStatus_def Let_def split: prod.splits)

lemma updateStatus_world:
  "snd (updateStatus env u conds w) =
     (if idp_Status u = \<lparr>Phase = (if \<exists>c\<in>set conds. Status c = ConditionFalse
                                  then LDAPPhaseError else LDAPPhaseReady),
                         Conditions = snd (mergeConditions conds (Generation u)
                                            (Conditions (idp_Status u)) (now env))\<rparr>
      then w
      else w\<lparr>status_updates := status_updates w @
             [u\<lparr>idp_Status :=
                  \<lparr>Phase = (if \<exists>c\<in>set conds. Status c = ConditionFalse
                              then LDAPPhaseError else LDAPPhaseReady),
                   Conditions = snd (mergeConditions conds (Generation u)
                                      (Conditions (idp_Status u)) (now env))\<rparr>\<rparr>]\<rparr>)"
proof -
  obtain had merged where mc: "mergeConditions conds (Generation u)
       (Conditions (idp_Status u)) (now env) = (had, merged)"
    by (cases "mergeConditions conds (Generation u) (Conditions (idp_Status u)) (now env)") auto
  have had: "had \<longleftrightarrow> (\<exists>c\<in>set conds. Status c = ConditionFalse)"
    using mergeConditions_hadError [of conds "Generation u" "Conditions (idp_Status u)" "now env"] mc
    by simp
  have eq: "u = u\<lparr>idp_Status := st\<rparr> \<longleftrightarrow> idp_Status u = st" for st
    by (cases u) auto
  show ?thesis
    unfolding updateStatus_def mc had [symmetric]
    by (simp add: Let_def eq)
qed

lemma mergeCondition_keeps:
  "x \<in> set ex \<Longrightarrow> Type x \<noteq> Type new \<Longrightarrow> x \<in> set (mergeCondition ex new)"
  by (induction ex) auto

lemma mergeCondition_has:
  "\<exists>x\<in>set (mergeCondition ex new). Type x = Type new \<and> Status x = Status new
     \<and> Reason x = Reason new \<and> Message x = Message new
     \<and> ObservedGeneration x = ObservedGeneration new"
  by (induction ex) auto

lemma mergeConditions_snd_step:
  "snd (mergeConditions (c # cs) g ex t)
     = snd (mergeConditions cs g
              (mergeCondition ex (c\<lparr>LastTransitionTime := t, ObservedGeneration := g\<rparr>)) t)"
  by (simp add: Let_def split: prod.splits)

lemma mergeConditions_keeps:
  "x \<in> set ex \<Longrightarrow> Type x \<notin> Type ` set conds \<Longrightarrow> x \<in> set (snd (mergeConditions conds g ex t))"
proof (induction conds arbitrary: ex)
  case Nil
  then show ?case by simp
next
  case (Cons c cs)
  from Cons.prems have "x \<in> set (mergeCondition ex (c\<lparr>LastTransitionTime := t, ObservedGeneration := g\<rparr>))"
    by (intro mergeCondition_keeps) auto
  moreover from Cons.prems have "Type x \<notin> Type ` set cs" by auto
  ultimately show ?case
    unfolding mergeConditions_snd_step by (rule Cons.IH)
qed

lemma mergeConditions_has:
  assumes "c \<in> set conds" "distinct (map Type conds)"
  shows "\<exists>x\<in>set (snd (mergeConditions conds g ex t)). Type x = Type c \<and> Status x = Status c
     \<and> Reason x = Reason c \<and> Message x = Message c \<and> ObservedGeneration x = g"
  using assms
proof (induction conds arbitrary: ex)
  case Nil
  then show ?case by simp
next
  case (Cons d ds)
  let ?d = "d\<lparr>LastTransitionTime := t, ObservedGeneration := g\<rparr>"
  show ?case
  proof (cases "c = d")
    case True
    obtain x where x: "x \<in> set (mergeCondition ex ?d)" "Type x = Type ?d" "Status x = Status ?d"
      "Reason x = Reason ?d" "Message x = Message ?d" "ObservedGeneration x = ObservedGeneration ?d"
      using mergeCondition_has [of ex ?d] by blast
    have "Type x \<notin> Type ` set ds"
      using x(2) Cons.prems(2) by auto
    with x(1) have "x \<in> set (snd (mergeConditions ds g (mergeCondition ex ?d) t))"
      by (rule mergeConditions_keeps)
    with x True show ?thesis
      unfolding mergeConditions_snd_step by auto
  next
    case False
    with Cons.prems have "c \<in> set ds" "distinct (map Type ds)" by auto
    then show ?thesis
      unfolding mergeConditions_snd_step by (rule Cons.IH)
  qed
qed

text \<open>
  C9. \<^verbatim>\<open>updateStatus\<close> reports an error condition, and sets the phase to Error, if and only
  if some computed condition has status False; otherwise the phase is Ready. It sends one
  \<^verbatim>\<open>UpdateStatus\<close> request, carrying the merged status, if and only if the merged status
  differs from the stored object's status; when nothing changed the world is left as it
  was.
\<close>

theorem updateStatus_phase_and_write:
  "fst (updateStatus env upstream conditions w) = (\<exists>c\<in>set conditions. Status c = ConditionFalse)
   \<and> snd (updateStatus env upstream conditions w)
       = (if idp_Status upstream
              = \<lparr>Phase = (if \<exists>c\<in>set conditions. Status c = ConditionFalse
                          then LDAPPhaseError else LDAPPhaseReady),
                 Conditions = snd (mergeConditions conditions (Generation upstream)
                                    (Conditions (idp_Status upstream)) (now env))\<rparr>
          then w
          else w\<lparr>status_updates := status_updates w @
                 [upstream\<lparr>idp_Status :=
                    \<lparr>Phase = (if \<exists>c\<in>set conditions. Status c = ConditionFalse
                                then LDAPPhaseError else LDAPPhaseReady),
                     Conditions = snd (mergeConditions conditions (Generation upstream)
                                    (Conditions (idp_Status upstream)) (now env))\<rparr>\<rparr>]\<rparr>)"
proof -
  obtain had merged where mc: "mergeConditions conditions (Generation upstream)
       (Conditions (idp_Status upstream)) (now env) = (had, merged)"
    by (cases "mergeConditions conditions (Generation upstream)
       (Conditions (idp_Status upstream)) (now env)") auto
  have had: "had \<longleftrightarrow> (\<exists>c\<in>set conditions. Status c = ConditionFalse)"
    using mergeConditions_hadError [of conditions "Generation upstream"
        "Conditions (idp_Status upstream)" "now env"] mc by simp
  have eq: "upstream = upstream\<lparr>idp_Status := st\<rparr> \<longleftrightarrow> idp_Status upstream = st" for st
    by (cases upstream) auto
  show ?thesis
    unfolding updateStatus_def mc had [symmetric]
    by (simp add: Let_def eq)
qed

text \<open>A failed TLS condition on the example provider: phase Error, one request.\<close>

theorem updateStatus_phase_and_write_witness:
  "fst (updateStatus good_env example_upstream [invalidTLSCondition ''bad''] example_world)
   \<and> status_updates (snd (updateStatus good_env example_upstream [invalidTLSCondition ''bad'']
                            example_world))
       = [example_upstream\<lparr>idp_Status :=
            \<lparr>Phase = LDAPPhaseError,
             Conditions = [(invalidTLSCondition ''bad'')
                             \<lparr>LastTransitionTime := 100, ObservedGeneration := 3\<rparr>]\<rparr>\<rparr>]"
  using updateStatus_phase_and_write [of good_env example_upstream "[invalidTLSCondition ''bad'']"
      example_world]
  by (simp add: example_defs invalidTLSCondition_def)

section \<open>One provider, and the whole sync\<close>

lemma validateUpstream_fst:
  "fst (validateUpstream env u w) =
     (if \<exists>c\<in>set (fst (computeConditions env u w)). Status c = ConditionFalse then None
      else Some (New (fst (snd (computeConditions env u w)))))"
proof -
  obtain conds cfg w1 where cc: "computeConditions env u w = (conds, cfg, w1)"
    by (cases "computeConditions env u w") auto
  obtain had w2 where us: "updateStatus env u conds w1 = (had, w2)"
    by (cases "updateStatus env u conds w1") auto
  have "had \<longleftrightarrow> (\<exists>c\<in>set conds. Status c = ConditionFalse)"
    using updateStatus_hadError [of env u conds w1] us by simp
  then show ?thesis
    by (simp add: validateUpstream_def cc us)
qed

lemma validateUpstream_indep:
  "fst (validateUpstream env u w) = fst (validateUpstream env u w0)"
  using computeConditions_indep [of env u w w0] by (simp add: validateUpstream_fst)

lemma validateUpstream_frame:
  "idp_cache (snd (validateUpstream env u w)) = idp_cache w"
  "set_calls (snd (validateUpstream env u w)) = set_calls w"
proof -
  obtain conds cfg w1 where cc: "computeConditions env u w = (conds, cfg, w1)"
    by (cases "computeConditions env u w") auto
  obtain had w2 where us: "updateStatus env u conds w1 = (had, w2)"
    by (cases "updateStatus env u conds w1") auto
  have "idp_cache w1 = idp_cache w" "set_calls w1 = set_calls w"
    using computeConditions_frame [of env u w] cc by simp_all
  moreover have "idp_cache w2 = idp_cache w1" "set_calls w2 = set_calls w1"
    using updateStatus_frame [of env u conds w1] us by simp_all
  ultimately show "idp_cache (snd (validateUpstream env u w)) = idp_cache w"
    "set_calls (snd (validateUpstream env u w)) = set_calls w"
    by (simp_all add: validateUpstream_def cc us)
qed

lemma validateUpstream_snd:
  "snd (validateUpstream env u w)
     = snd (updateStatus env u (fst (computeConditions env u w)) (snd (snd (computeConditions env u w))))"
  by (simp add: validateUpstream_def split: prod.splits)

lemma validateSecret_lister:
  "validateSecret (env\<lparr>lister_List := l\<rparr>) u cfg = validateSecret env u cfg"
  by (simp add: validateSecret_def Let_def split: sum.splits)

lemma validateTLSConfig_lister:
  "validateTLSConfig (env\<lparr>lister_List := l\<rparr>) u cfg = validateTLSConfig env u cfg"
  by (simp add: validateTLSConfig_def split: option.splits sum.splits)

lemma validateFinishedConfig_lister:
  "validateFinishedConfig (env\<lparr>lister_List := l\<rparr>) u cfg v w = validateFinishedConfig env u cfg v w"
  by (simp add: validateFinishedConfig_def testConnection_def dryRunAuthentication_def Let_def
      split: option.splits)

lemma updateStatus_lister:
  "updateStatus (env\<lparr>lister_List := l\<rparr>) u conds w = updateStatus env u conds w"
  by (simp add: updateStatus_def)

lemma validateUpstream_lister:
  "validateUpstream (env\<lparr>lister_List := l\<rparr>) u w = validateUpstream env u w"
proof -
  have "computeConditions (env\<lparr>lister_List := l\<rparr>) u w = computeConditions env u w"
    by (simp only: computeConditions_def validateSecret_lister validateTLSConfig_lister
        validateFinishedConfig_lister)
  then show ?thesis
    by (simp only: validateUpstream_def updateStatus_lister)
qed

lemma Sync_loop_step:
  "Sync_loop env (u # ups) rq acc w =
     (case fst (validateUpstream env u w) of
        None \<Rightarrow> Sync_loop env ups True acc (snd (validateUpstream env u w))
      | Some valid \<Rightarrow> Sync_loop env ups rq (acc @ [valid]) (snd (validateUpstream env u w)))"
  by (simp split: prod.splits option.splits)

lemma Sync_loop_requeue:
  "fst (Sync_loop env ups rq acc w)
     = (rq \<or> (\<exists>u\<in>set ups. fst (validateUpstream env u w0) = None))"
proof (induction ups arbitrary: rq acc w)
  case Nil
  show ?case by simp
next
  case (Cons u ups)
  have r: "fst (validateUpstream env u w) = fst (validateUpstream env u w0)"
    by (rule validateUpstream_indep)
  show ?case
    by (cases "fst (validateUpstream env u w0)")
      (simp_all only: Sync_loop_step r Cons.IH option.case list.set, auto)
qed

lemma Sync_loop_validated:
  "fst (snd (Sync_loop env ups rq acc w))
     = acc @ List.map_filter (\<lambda>u. fst (validateUpstream env u w0)) ups"
proof (induction ups arbitrary: rq acc w)
  case Nil
  show ?case by (simp add: List.map_filter_simps)
next
  case (Cons u ups)
  have r: "fst (validateUpstream env u w) = fst (validateUpstream env u w0)"
    by (rule validateUpstream_indep)
  show ?case
    by (cases "fst (validateUpstream env u w0)")
      (simp_all only: Sync_loop_step r Cons.IH option.case List.map_filter_simps, auto)
qed

lemma Sync_loop_set_calls:
  "set_calls (snd (snd (Sync_loop env ups rq acc w))) = set_calls w"
proof (induction ups arbitrary: rq acc w)
  case Nil
  show ?case by simp
next
  case (Cons u ups)
  show ?case
    by (cases "fst (validateUpstream env u w)")
      (simp_all only: Sync_loop_step Cons.IH option.case validateUpstream_frame)
qed

lemma Sync_cache:
  assumes "lister_List env = Inr ups"
  shows "idp_cache (snd (Sync env w)) = List.map_filter (\<lambda>u. fst (validateUpstream env u w0)) ups"
proof -
  obtain rq vs w' where loop: "Sync_loop env ups False [] w = (rq, vs, w')"
    by (cases "Sync_loop env ups False [] w") auto
  have "vs = List.map_filter (\<lambda>u. fst (validateUpstream env u w0)) ups"
    using Sync_loop_validated [of env ups False "[]" w w0] loop by simp
  then show ?thesis
    using assms loop by (simp add: Sync_def SetLDAPIdentityProviders_def Let_def)
qed

lemma Sync_error:
  assumes "lister_List env = Inr ups"
  shows "fst (Sync env w) = (if \<exists>u\<in>set ups. fst (validateUpstream env u w0) = None
                             then Some ErrSyntheticRequeue else None)"
proof -
  obtain rq vs w' where loop: "Sync_loop env ups False [] w = (rq, vs, w')"
    by (cases "Sync_loop env ups False [] w") auto
  have "rq \<longleftrightarrow> (\<exists>u\<in>set ups. fst (validateUpstream env u w0) = None)"
    using Sync_loop_requeue [of env ups False "[]" w w0] loop by simp
  then show ?thesis
    using assms loop by (simp add: Sync_def SetLDAPIdentityProviders_def Let_def)
qed

lemma Sync_set_calls:
  assumes "lister_List env = Inr ups"
  shows "set_calls (snd (Sync env w)) = Suc (set_calls w)"
proof -
  obtain rq vs w' where loop: "Sync_loop env ups False [] w = (rq, vs, w')"
    by (cases "Sync_loop env ups False [] w") auto
  have "set_calls w' = set_calls w"
    using Sync_loop_set_calls [of env ups False "[]" w] loop by simp
  then show ?thesis
    using assms loop by (simp add: Sync_def SetLDAPIdentityProviders_def Let_def)
qed

lemma map_filter_removeAll:
  "f u = None \<Longrightarrow> List.map_filter f (removeAll u ups) = List.map_filter f ups"
  by (induction ups) (auto simp: List.map_filter_simps split: option.splits)


lemma orphan_validateSecret:
  "Status (fst (validateSecret good_env orphan_upstream (initialConfig orphan_upstream)))
     = ConditionFalse"
  by (simp add: example_defs eval_defs)




text \<open>
  C4 (as amended). For a provider whose referenced bind secret exists but has a type other
  than basic-auth, the sync computes \<^verbatim>\<open>BindSecretValid\<close> as False with reason WrongType,
  leaves the provider's status with phase Error and that condition (by an \<^verbatim>\<open>UpdateStatus\<close>
  request, unless the stored status is that one already), excludes the provider from the
  validated set, and does request a synthetic requeue.
\<close>

theorem wrong_secret_type_requeues:
  assumes list: "lister_List env = Inr ups" and mem: "upstream \<in> set ups"
    and get: "secrets_Get env (obj_Namespace upstream) (SecretName (spec_Bind (Spec upstream)))
                = Inr secret"
    and ty: "secret_Type secret \<noteq> SecretTypeBasicAuth"
  shows "(\<exists>c\<in>set (fst (computeConditions env upstream w)).
            Type c = typeBindSecretValid \<and> Status c = ConditionFalse \<and> Reason c = reasonWrongType)
       \<and> (\<exists>st. Phase st = LDAPPhaseError
             \<and> (\<exists>c\<in>set (Conditions st). Type c = typeBindSecretValid \<and> Status c = ConditionFalse
                  \<and> Reason c = reasonWrongType \<and> ObservedGeneration c = Generation upstream)
             \<and> (if idp_Status upstream = st
                 then snd (validateUpstream env upstream w) = w
                 else snd (validateUpstream env upstream w)
                        = w\<lparr>status_updates := status_updates w @ [upstream\<lparr>idp_Status := st\<rparr>]\<rparr>))
       \<and> fst (validateUpstream env upstream w) = None
       \<and> fst (Sync env w) = Some ErrSyntheticRequeue"
proof -
  let ?sc = "fst (validateSecret env upstream (initialConfig upstream))"
  let ?conds = "fst (computeConditions env upstream w)"
  have sc: "Type ?sc = typeBindSecretValid" "Status ?sc = ConditionFalse" "Reason ?sc = reasonWrongType"
    using get ty by (simp_all add: validateSecret_def Let_def)
  have mem_sc: "?sc \<in> set ?conds"
    by (rule computeConditions_hd)
  have bad: "Status ?sc \<noteq> ConditionTrue
         \<or> Status (fst (validateTLSConfig env upstream
                (snd (snd (validateSecret env upstream (initialConfig upstream)))))) \<noteq> ConditionTrue"
    using sc(2) by simp
  have w1: "snd (snd (computeConditions env upstream w)) = w"
    by (simp add: computeConditions_invalid [OF bad])
  have had: "\<exists>c\<in>set ?conds. Status c = ConditionFalse"
    using mem_sc sc(2) by blast
  have none: "fst (validateUpstream env upstream w') = None" for w'
    using invalid_has_False [OF bad, of w'] by (simp add: validateUpstream_fst)
  let ?st = "\<lparr>Phase = LDAPPhaseError,
              Conditions = snd (mergeConditions ?conds (Generation upstream)
                                 (Conditions (idp_Status upstream)) (now env))\<rparr>"
  obtain x where x: "x \<in> set (Conditions ?st)" "Type x = Type ?sc" "Status x = Status ?sc"
    "Reason x = Reason ?sc" "ObservedGeneration x = Generation upstream"
    using mergeConditions_has [OF mem_sc computeConditions_distinct,
        of "Generation upstream" "Conditions (idp_Status upstream)" "now env"]
    by auto
  have world: "if idp_Status upstream = ?st
                 then snd (validateUpstream env upstream w) = w
                 else snd (validateUpstream env upstream w)
                        = w\<lparr>status_updates := status_updates w @ [upstream\<lparr>idp_Status := ?st\<rparr>]\<rparr>"
    using had by (simp add: validateUpstream_snd w1 updateStatus_world)
  have "\<exists>st. Phase st = LDAPPhaseError
             \<and> (\<exists>c\<in>set (Conditions st). Type c = typeBindSecretValid \<and> Status c = ConditionFalse
                  \<and> Reason c = reasonWrongType \<and> ObservedGeneration c = Generation upstream)
             \<and> (if idp_Status upstream = st
                 then snd (validateUpstream env upstream w) = w
                 else snd (validateUpstream env upstream w)
                        = w\<lparr>status_updates := status_updates w @ [upstream\<lparr>idp_Status := st\<rparr>]\<rparr>)"
  proof (intro exI [of _ ?st] conjI)
    show "Phase ?st = LDAPPhaseError" by simp
    show "\<exists>c\<in>set (Conditions ?st). Type c = typeBindSecretValid \<and> Status c = ConditionFalse
                  \<and> Reason c = reasonWrongType \<and> ObservedGeneration c = Generation upstream"
      using x sc by (intro bexI [of _ x]) simp_all
    show "if idp_Status upstream = ?st
                 then snd (validateUpstream env upstream w) = w
                 else snd (validateUpstream env upstream w)
                        = w\<lparr>status_updates := status_updates w @ [upstream\<lparr>idp_Status := ?st\<rparr>]\<rparr>"
      by (rule world)
  qed
  moreover have "fst (Sync env w) = Some ErrSyntheticRequeue"
    using Sync_error [OF list, of w w] mem none by auto
  moreover have "\<exists>c\<in>set ?conds. Type c = typeBindSecretValid \<and> Status c = ConditionFalse
      \<and> Reason c = reasonWrongType"
    using mem_sc sc by blast
  ultimately show ?thesis using none by blast
qed

text \<open>The example provider with a secret of type Opaque.\<close>

theorem wrong_secret_type_requeues_witness:
  "fst (validateUpstream opaque_env example_upstream example_world) = None
   \<and> fst (Sync opaque_env example_world) = Some ErrSyntheticRequeue"
proof -
  have "lister_List opaque_env = Inr [example_upstream]" "example_upstream \<in> set [example_upstream]"
    "secrets_Get opaque_env (obj_Namespace example_upstream)
        (SecretName (spec_Bind (Spec example_upstream))) = Inr (example_secret ''Opaque'' ''1'')"
    "secret_Type (example_secret ''Opaque'' ''1'') \<noteq> SecretTypeBasicAuth"
    by (simp_all add: example_defs eval_defs)
  from wrong_secret_type_requeues [OF this, of example_world] show ?thesis
    by blast
qed

text \<open>The same input evaluated: the secret exists, its type is wrong, and \<^verbatim>\<open>Sync\<close> returns
  the synthetic requeue.\<close>

theorem wrong_secret_type_counterexample:
  "lister_List opaque_env = Inr [example_upstream]
   \<and> secrets_Get opaque_env (obj_Namespace example_upstream)
        (SecretName (spec_Bind (Spec example_upstream))) = Inr (example_secret ''Opaque'' ''1'')
   \<and> secret_Type (example_secret ''Opaque'' ''1'') \<noteq> SecretTypeBasicAuth
   \<and> fst (Sync opaque_env example_world) = Some ErrSyntheticRequeue"
proof -
  have "fst (Sync opaque_env example_world) = Some ErrSyntheticRequeue"
    by code_simp
  then show ?thesis
    by (simp add: example_defs eval_defs)
qed

text \<open>
  C8. For a provider whose \<^verbatim>\<open>BindSecretValid\<close> or \<^verbatim>\<open>TLSConfigurationValid\<close> condition is
  not True, the computed conditions are these two alone (no \<^verbatim>\<open>LDAPConnectionValid\<close>
  condition), validating the provider dials nothing, the provider yields no validated
  record, and a sync whose list contains the provider returns the synthetic requeue and
  publishes what it would publish for the list without that provider.
\<close>

theorem invalid_config_skips_connection_check:
  assumes vs: "validateSecret env upstream (initialConfig upstream)
                 = (secretValidCondition, currentSecretVersion, config1)"
    and vt: "validateTLSConfig env upstream config1 = (tlsValidCondition, config2)"
    and bad: "Status secretValidCondition \<noteq> ConditionTrue \<or> Status tlsValidCondition \<noteq> ConditionTrue"
  shows "fst (computeConditions env upstream w) = [secretValidCondition, tlsValidCondition]
       \<and> (\<forall>c\<in>set (fst (computeConditions env upstream w)). Type c \<noteq> typeLDAPConnectionValid)
       \<and> dials (snd (validateUpstream env upstream w)) = dials w
       \<and> fst (validateUpstream env upstream w) = None
       \<and> (\<forall>ups. lister_List env = Inr ups \<and> upstream \<in> set ups \<longrightarrow>
            fst (Sync env w) = Some ErrSyntheticRequeue
            \<and> idp_cache (snd (Sync env w))
                = idp_cache (snd (Sync (env\<lparr>lister_List := Inr (removeAll upstream ups)\<rparr>) w)))"
proof -
  have bad': "Status (fst (validateSecret env upstream (initialConfig upstream))) \<noteq> ConditionTrue
         \<or> Status (fst (validateTLSConfig env upstream
                (snd (snd (validateSecret env upstream (initialConfig upstream)))))) \<noteq> ConditionTrue"
    using vs vt bad by simp
  have cc: "computeConditions env upstream w = ([secretValidCondition, tlsValidCondition], config2, w)"
    using computeConditions_invalid [OF bad', of w] vs vt by simp
  have types: "Type secretValidCondition \<noteq> typeLDAPConnectionValid"
    "Type tlsValidCondition \<noteq> typeLDAPConnectionValid"
    using validateSecret_Type [of env upstream "initialConfig upstream"]
      validateTLSConfig_Type [of env upstream config1] vs vt type_names_distinct
    by simp_all
  have none: "fst (validateUpstream env upstream w') = None" for w'
    using invalid_has_False [OF bad', of w'] by (simp add: validateUpstream_fst)
  have dials: "dials (snd (validateUpstream env upstream w)) = dials w"
    by (simp add: validateUpstream_snd cc updateStatus_frame)
  have sync: "fst (Sync env w) = Some ErrSyntheticRequeue
            \<and> idp_cache (snd (Sync env w))
                = idp_cache (snd (Sync (env\<lparr>lister_List := Inr (removeAll upstream ups)\<rparr>) w))"
    if list: "lister_List env = Inr ups" and mem: "upstream \<in> set ups" for ups
  proof -
    have "fst (Sync env w) = Some ErrSyntheticRequeue"
      using Sync_error [OF list, of w w] mem none by auto
    moreover have "idp_cache (snd (Sync env w))
        = List.map_filter (\<lambda>u. fst (validateUpstream env u w)) ups"
      using list by (rule Sync_cache)
    moreover have "idp_cache (snd (Sync (env\<lparr>lister_List := Inr (removeAll upstream ups)\<rparr>) w))
        = List.map_filter (\<lambda>u. fst (validateUpstream env u w)) (removeAll upstream ups)"
      using Sync_cache [of "env\<lparr>lister_List := Inr (removeAll upstream ups)\<rparr>"
          "removeAll upstream ups" w w]
      by (simp add: validateUpstream_lister)
    ultimately show ?thesis
      using map_filter_removeAll [of "\<lambda>u. fst (validateUpstream env u w)" upstream ups] none
      by simp
  qed
  from cc types none dials sync show ?thesis by simp
qed

text \<open>The provider whose secret is missing.\<close>

theorem invalid_config_skips_connection_check_witness:
  "fst (validateUpstream good_env orphan_upstream example_world) = None
   \<and> dials (snd (validateUpstream good_env orphan_upstream example_world)) = dials example_world
   \<and> fst (Sync good_env example_world) = Some ErrSyntheticRequeue"
proof -
  have vs: "validateSecret good_env orphan_upstream (initialConfig orphan_upstream)
      = (fst (validateSecret good_env orphan_upstream (initialConfig orphan_upstream)),
         fst (snd (validateSecret good_env orphan_upstream (initialConfig orphan_upstream))),
         snd (snd (validateSecret good_env orphan_upstream (initialConfig orphan_upstream))))"
    by simp
  have vt: "validateTLSConfig good_env orphan_upstream
        (snd (snd (validateSecret good_env orphan_upstream (initialConfig orphan_upstream))))
      = (fst (validateTLSConfig good_env orphan_upstream
           (snd (snd (validateSecret good_env orphan_upstream (initialConfig orphan_upstream))))),
         snd (validateTLSConfig good_env orphan_upstream
           (snd (snd (validateSecret good_env orphan_upstream (initialConfig orphan_upstream))))))"
    by simp
  have bad: "Status (fst (validateSecret good_env orphan_upstream (initialConfig orphan_upstream)))
               \<noteq> ConditionTrue
           \<or> Status (fst (validateTLSConfig good_env orphan_upstream
           (snd (snd (validateSecret good_env orphan_upstream (initialConfig orphan_upstream))))))
               \<noteq> ConditionTrue"
    using orphan_validateSecret by simp
  have list: "lister_List good_env = Inr [example_upstream, orphan_upstream]"
    by (simp add: good_env_def example_env_def)
  show ?thesis
    using invalid_config_skips_connection_check [OF vs vt bad, of example_world] list
    by simp
qed

text \<open>
  C10. If listing the LDAPIdentityProviders fails, \<^verbatim>\<open>Sync\<close> returns that error (wrapped)
  at once and changes nothing: the cache keeps the previously published set, no status is
  written and nothing is dialled.
\<close>

theorem Sync_list_error_publishes_nothing:
  assumes "lister_List env = Inl err"
  shows "Sync env w = (Some (ErrFailedToList (''failed to list LDAPIdentityProviders: '' @ err)), w)"
  using assms by (simp add: Sync_def)

text \<open>A lister that is not ready yet leaves the published snapshot alone.\<close>

theorem Sync_list_error_publishes_nothing_witness:
  "lister_List failing_lister_env = Inl ''informer cache is not synced''
   \<and> snd (Sync failing_lister_env published_world) = published_world
   \<and> idp_cache (snd (Sync failing_lister_env published_world)) = [example_config]"
  using Sync_list_error_publishes_nothing [of failing_lister_env "''informer cache is not synced''" published_world]
  by (simp add: failing_lister_env_def published_world_def)

end
